theory Spec2Isabelle
  imports Complex_Main
begin

section \<open>Shared types and constants (types.ts, constants.ts)\<close>

datatype TileType = EMPTY | WALL_HARD | WALL_SOFT

record GridPoint =
  col :: int
  row :: int

type_synonym grid = "TileType list list"

definition GRID_ROWS :: int where "GRID_ROWS = 13"
definition GRID_COLS :: int where "GRID_COLS = 15"

text \<open>
  JavaScript raises a TypeError when a property of \<open>undefined\<close> is read. That is what
  \<open>grid[row][col]\<close> does when \<open>grid[row]\<close> does not exist; when the row exists and the
  column does not, the read yields \<open>undefined\<close>, which is a value different from every tile.
\<close>

datatype error = TypeError

definition tileAt :: "grid \<Rightarrow> int \<Rightarrow> int \<Rightarrow> error + TileType option" where
  "tileAt gr r c =
     (if r < 0 \<or> int (length gr) \<le> r then Inl TypeError
      else if c < 0 \<or> int (length (gr ! nat r)) \<le> c then Inr None
      else Inr (Some (gr ! nat r ! nat c)))"

definition bombAt :: "GridPoint list \<Rightarrow> int \<Rightarrow> int \<Rightarrow> bool" where
  "bombAt bombs c r = list_ex (\<lambda>b. col b = c \<and> row b = r) bombs"

section \<open>Pathfinding (services/aiService.ts)\<close>

text \<open>
  A search node. The source links nodes by object reference (\<open>parent\<close>). A node is only
  ever written to while it sits in the open list, and it becomes somebody's parent only
  after it has been spliced out of the open list for good (its cell is in the closed set,
  and closed cells are skipped). So no node that is referenced as a parent is mutated
  afterwards, and the parent chain can be held by value.
\<close>

datatype PathNode =
  PathNode (node_x: int) (node_y: int) (node_g: int) (node_h: int) (node_f: int)
           (node_parent: "PathNode option")

definition heuristic :: "GridPoint \<Rightarrow> GridPoint \<Rightarrow> int" where
  "heuristic a b = \<bar>col a - col b\<bar> + \<bar>row a - row b\<bar>"

definition isWalkable :: "int \<Rightarrow> int \<Rightarrow> grid \<Rightarrow> GridPoint list \<Rightarrow> bool \<Rightarrow> error + bool" where
  "isWalkable c r gr bombs ignoreBombs =
     (if c < 0 \<or> c \<ge> GRID_COLS \<or> r < 0 \<or> r \<ge> GRID_ROWS then Inr False
      else case tileAt gr r c of
             Inl e \<Rightarrow> Inl e
           | Inr t \<Rightarrow>
               if t \<noteq> Some EMPTY then Inr False
               else if \<not> ignoreBombs \<and> bombAt bombs c r then Inr False
               else Inr True)"

definition MAX_ITERATIONS :: nat where "MAX_ITERATIONS = 500"

text \<open>The scan for the lowest f score: a later index wins only when strictly lower.\<close>

function lowestFrom :: "PathNode list \<Rightarrow> nat \<Rightarrow> nat \<Rightarrow> nat" where
  "lowestFrom openSet i lowestIndex =
     (if i < length openSet
      then lowestFrom openSet (i + 1)
             (if node_f (openSet ! i) < node_f (openSet ! lowestIndex) then i else lowestIndex)
      else lowestIndex)"
  by pat_completeness auto
termination
  by (relation "measure (\<lambda>(openSet, i, l). length openSet - i)") auto

declare lowestFrom.simps [simp del]

text \<open>\<open>Array.prototype.findIndex\<close>: the index of the first element that satisfies the test.\<close>

fun findIndex :: "('a \<Rightarrow> bool) \<Rightarrow> 'a list \<Rightarrow> nat option" where
  "findIndex P [] = None"
| "findIndex P (a # as) =
     (if P a then Some 0 else map_option Suc (findIndex P as))"

text \<open>The walk along the parent links, newest node first; the caller reverses it.\<close>

fun walkParents :: "PathNode \<Rightarrow> GridPoint list" where
  "walkParents (PathNode x y g h f p) =
     \<lparr>col = x, row = y\<rparr> # (case p of None \<Rightarrow> [] | Some q \<Rightarrow> walkParents q)"

text \<open>The body of the loop over the four neighbours, for one neighbour.\<close>

definition visitNeighbor ::
  "GridPoint \<Rightarrow> grid \<Rightarrow> GridPoint list \<Rightarrow> (int \<times> int) set \<Rightarrow> PathNode \<Rightarrow>
   PathNode list \<Rightarrow> int \<times> int \<Rightarrow> error + PathNode list" where
  "visitNeighbor target gr bombs closedSet current openSet nb =
     (case nb of (x, y) \<Rightarrow>
        if (x, y) \<in> closedSet then Inr openSet
        else case isWalkable x y gr bombs False of
               Inl e \<Rightarrow> Inl e
             | Inr w \<Rightarrow>
                 if \<not> w then Inr openSet
                 else
                   let gScore = node_g current + 1 in
                   case findIndex (\<lambda>n. node_x n = x \<and> node_y n = y) openSet of
                     None \<Rightarrow>
                       let h = heuristic \<lparr>col = x, row = y\<rparr> target in
                       Inr (openSet @ [PathNode x y gScore h (gScore + h) (Some current)])
                   | Some k \<Rightarrow>
                       let e = openSet ! k in
                       if gScore < node_g e
                       then Inr (openSet[k := PathNode (node_x e) (node_y e) gScore (node_h e)
                                                   (gScore + node_h e) (Some current)])
                       else Inr openSet)"

fun visitNeighbors ::
  "GridPoint \<Rightarrow> grid \<Rightarrow> GridPoint list \<Rightarrow> (int \<times> int) set \<Rightarrow> PathNode \<Rightarrow>
   PathNode list \<Rightarrow> (int \<times> int) list \<Rightarrow> error + PathNode list" where
  "visitNeighbors target gr bombs closedSet current openSet [] = Inr openSet"
| "visitNeighbors target gr bombs closedSet current openSet (nb # nbs) =
     (case visitNeighbor target gr bombs closedSet current openSet nb of
        Inl e \<Rightarrow> Inl e
      | Inr openSet' \<Rightarrow> visitNeighbors target gr bombs closedSet current openSet' nbs)"

definition neighborsOf :: "PathNode \<Rightarrow> (int \<times> int) list" where
  "neighborsOf current =
     [(node_x current + 1, node_y current), (node_x current - 1, node_y current),
      (node_x current, node_y current + 1), (node_x current, node_y current - 1)]"

text \<open>\<open>openSet.splice(lowestIndex, 1)\<close>\<close>

definition splice1 :: "nat \<Rightarrow> 'a list \<Rightarrow> 'a list" where
  "splice1 k xs = take k xs @ drop (Suc k) xs"

text \<open>
  The \<open>while (openSet.length > 0)\<close> loop. \<open>iterations\<close> is the counter of the source; the
  loop cannot run past \<open>MAX_ITERATIONS\<close>, which is what makes it terminate.
\<close>

function searchLoop ::
  "GridPoint \<Rightarrow> grid \<Rightarrow> GridPoint list \<Rightarrow> nat \<Rightarrow> PathNode list \<Rightarrow> (int \<times> int) set \<Rightarrow>
   error + GridPoint list option" where
  "searchLoop target gr bombs iterations openSet closedSet =
     (if openSet = [] then Inr None
      else if iterations + 1 > MAX_ITERATIONS then Inr None
      else
        let lowestIndex = lowestFrom openSet 1 0;
            current = openSet ! lowestIndex
        in if node_x current = col target \<and> node_y current = row target
           then Inr (Some (rev (walkParents current)))
           else
             case visitNeighbors target gr bombs
                    (insert (node_x current, node_y current) closedSet) current
                    (splice1 lowestIndex openSet) (neighborsOf current) of
               Inl e \<Rightarrow> Inl e
             | Inr openSet' \<Rightarrow>
                 searchLoop target gr bombs (iterations + 1) openSet'
                   (insert (node_x current, node_y current) closedSet))"
  by pat_completeness auto
termination
  by (relation "measure (\<lambda>(target, gr, bombs, iterations, openSet, closedSet).
                           Suc MAX_ITERATIONS - iterations)") auto

declare searchLoop.simps [simp del]

definition findPath ::
  "GridPoint \<Rightarrow> GridPoint \<Rightarrow> grid \<Rightarrow> GridPoint list \<Rightarrow> error + GridPoint list option" where
  "findPath start target gr bombs =
     searchLoop target gr bombs 0
       [PathNode (col start) (row start) 0 (heuristic start target) (heuristic start target) None]
       {}"

text \<open>
  A playing field as \<open>initLevel\<close> builds it when no random draw yields a soft wall: the
  border and the pillars at even row and column are hard walls, every other tile is empty.
\<close>

definition arena :: grid where
  "arena = map (\<lambda>r. map (\<lambda>c. if r = 0 \<or> c = 0 \<or> r = 12 \<or> c = 14 then WALL_HARD
                               else if r mod 2 = 0 \<and> c mod 2 = 0 then WALL_HARD else EMPTY)
                        [0..<15]) [0..<13::nat]"

subsection \<open>Predicates used to state the search invariants\<close>

text \<open>
  \<open>tailFree bombs n\<close>: no cell on the parent chain of \<open>n\<close>, the root excepted, holds a bomb.
  \<open>rootCell n\<close>: the cell of the node at the end of the parent chain.
\<close>

fun tailFree :: "GridPoint list \<Rightarrow> PathNode \<Rightarrow> bool" where
  "tailFree bombs (PathNode x y g h f None) = True"
| "tailFree bombs (PathNode x y g h f (Some p)) = (\<not> bombAt bombs x y \<and> tailFree bombs p)"

fun rootCell :: "PathNode \<Rightarrow> GridPoint" where
  "rootCell (PathNode x y g h f None) = \<lparr>col = x, row = y\<rparr>"
| "rootCell (PathNode x y g h f (Some p)) = rootCell p"

definition nodeOk :: "GridPoint \<Rightarrow> GridPoint list \<Rightarrow> PathNode \<Rightarrow> bool" where
  "nodeOk start bombs n = (tailFree bombs n \<and> rootCell n = start)"


subsection \<open>Predicates used to state optimality on an open field\<close>









section \<open>The game engine (services/gameEngine.ts)\<close>

datatype Direction = UP | DOWN | LEFT | RIGHT | NONE

datatype PowerUpType = BOMB_UP | FIRE_UP | SPEED_UP | SUPER_BOMB | TIME_BONUS

datatype EnemyType = WALKER | CHASER

definition TILE_SIZE :: real where "TILE_SIZE = 48"
definition CANVAS_WIDTH :: real where "CANVAS_WIDTH = real_of_int GRID_COLS * TILE_SIZE"
definition CANVAS_HEIGHT :: real where "CANVAS_HEIGHT = real_of_int GRID_ROWS * TILE_SIZE"
definition EXPLOSION_DURATION_MS :: real where "EXPLOSION_DURATION_MS = 600"

record Player =
  p_x :: real
  p_y :: real
  gridX :: int
  gridY :: int
  p_direction :: Direction
  isMoving :: bool
  bombsCount :: int
  maxBombs :: int
  bombRange :: int
  p_speed :: real
  invulnerableUntil :: real
  p_isDead :: bool
  animFrame :: real

record Bomb =
  b_id :: real
  b_col :: int
  b_row :: int
  b_timer :: real
  b_range :: int
  ownerId :: string

record ExplosionCell =
  c_col :: int
  c_row :: int
  isEnd :: bool
  c_direction :: Direction

record Explosion =
  x_id :: real
  center :: GridPoint
  cells :: "ExplosionCell list"
  x_timer :: real

record PowerUp =
  u_id :: real
  u_col :: int
  u_row :: int
  u_type :: PowerUpType
  bobOffset :: real

record Enemy =
  e_id :: real
  e_x :: real
  e_y :: real
  e_type :: EnemyType
  isBoss :: bool
  hp :: int
  maxHp :: int
  lastHitTime :: real
  e_direction :: Direction
  targetCol :: "int option"
  targetRow :: "int option"
  e_path :: "GridPoint list"
  recalcPathTimer :: real
  e_isDead :: bool
  e_speed :: real
  animOffset :: real

record Input =
  up :: bool
  down :: bool
  left :: bool
  right :: bool
  bomb :: bool
  bombPressed :: bool

record GameStats =
  s_score :: int
  s_lives :: int
  s_level :: int
  timeLeft :: int

text \<open>
  The state of a \<open>GameEngine\<close> object. Besides the fields of the class it holds what the
  engine exchanges with its surroundings: \<open>randoms\<close> is the sequence of values that
  \<open>Math.random()\<close> returns and \<open>drawn\<close> counts the calls made so far; \<open>levelCompleteCalls\<close>
  counts the calls of the \<open>onLevelComplete\<close> callback; \<open>gameOverCalls\<close> lists the arguments of
  the calls of \<open>onGameOver\<close>; \<open>statsCalls\<close> lists the snapshots passed to \<open>onStatsUpdate\<close>;
  \<open>respawnsDue\<close> lists the due times of the respawn callbacks scheduled with \<open>setTimeout\<close>;
  \<open>animationRequested\<close> says whether \<open>animationId\<close> holds a request id.
  Calls into the audio service and drawing change nothing in the engine and are left out.
  The clock \<open>performance.now()\<close> is read once per tick: every function that reads it within
  one update takes the same reading \<open>now\<close>.
\<close>

record GameEngine =
  grid :: grid
  player :: Player
  bombs :: "Bomb list"
  explosions :: "Explosion list"
  powerUps :: "PowerUp list"
  enemies :: "Enemy list"
  level :: int
  score :: int
  lives :: int
  gameTime :: int
  isPaused :: bool
  isGameOver :: bool
  isVictory :: bool
  isLevelTransitioning :: bool
  isLevelComplete :: bool
  input :: Input
  lastTime :: real
  animationRequested :: bool
  randoms :: "nat \<Rightarrow> real"
  drawn :: nat
  levelCompleteCalls :: nat
  gameOverCalls :: "bool list"
  statsCalls :: "GameStats list"
  respawnsDue :: "real list"

text \<open>\<open>Math.floor((v + TILE_SIZE / 2) / TILE_SIZE)\<close>: the grid index under the centre of a tile-sized box at \<open>v\<close>.\<close>

definition centerCell :: "real \<Rightarrow> int" where
  "centerCell v = \<lfloor>(v + TILE_SIZE / 2) / TILE_SIZE\<rfloor>"

definition placeBomb :: "GameEngine \<Rightarrow> GameEngine" where
  "placeBomb st =
     (if bombsCount (player st) \<ge> maxBombs (player st) then st
      else
        let c = centerCell (p_x (player st));
            r = centerCell (p_y (player st))
        in if list_ex (\<lambda>b. b_col b = c \<and> b_row b = r) (bombs st) then st
           else st\<lparr>bombs := bombs st @
                       [\<lparr>b_id = randoms st (drawn st), b_col = c, b_row = r, b_timer = 2000,
                         b_range = bombRange (player st), ownerId = ''player''\<rparr>],
                    drawn := Suc (drawn st),
                    player := (player st)\<lparr>bombsCount := bombsCount (player st) + 1\<rparr>\<rparr>)"

definition createPlayer :: Player where
  "createPlayer = \<lparr>p_x = TILE_SIZE, p_y = TILE_SIZE, gridX = 1, gridY = 1, p_direction = DOWN,
     isMoving = False, bombsCount = 0, maxBombs = 1, bombRange = 2, p_speed = 5,
     invulnerableUntil = 0, p_isDead = False, animFrame = 0\<rparr>"

text \<open>
  An engine at the start of level 1 on the field \<open>arena\<close>, before any enemy is spawned, with
  every random draw equal to one half. It serves as the base of the concrete states used
  for evaluation.
\<close>

definition baseEngine :: GameEngine where
  "baseEngine = \<lparr>grid = arena, player = createPlayer, bombs = [], explosions = [], powerUps = [],
     enemies = [], level = 1, score = 0, lives = 5, gameTime = 135, isPaused = False,
     isGameOver = False, isVictory = False, isLevelTransitioning = False,
     isLevelComplete = False,
     input = \<lparr>up = False, down = False, left = False, right = False, bomb = False,
               bombPressed = False\<rparr>,
     lastTime = 0, animationRequested = False, randoms = (\<lambda>_. 1 / 2), drawn = 0, levelCompleteCalls = 0,
     gameOverCalls = [], statsCalls = [], respawnsDue = []\<rparr>"

text \<open>
  \<open>destroyBlock\<close> is only called for a cell whose tile was just read as a soft wall, so the
  cell exists and the assignment replaces it. The four random draws are, in the order of
  the source: the spawn test, the kind, the id and the bob offset.
\<close>

definition destroyBlock :: "GameEngine \<Rightarrow> int \<Rightarrow> int \<Rightarrow> GameEngine" where
  "destroyBlock st c r =
     (let st1 = st\<lparr>grid := (grid st)[nat r := (grid st ! nat r)[nat c := EMPTY]],
                    score := score st + 10\<rparr>
      in if randoms st (drawn st) < 0.35
         then
           let rand = randoms st (drawn st + 1);
               t0 = BOMB_UP;
               t1 = (if rand > 0.60 then FIRE_UP else t0);
               t2 = (if rand > 0.80 then SPEED_UP else t1);
               t3 = (if rand > 0.90 then TIME_BONUS else t2);
               t4 = (if rand > 0.96 then SUPER_BOMB else t3)
           in st1\<lparr>powerUps := powerUps st @
                         [\<lparr>u_id = randoms st (drawn st + 2), u_col = c, u_row = r, u_type = t4,
                           bobOffset = randoms st (drawn st + 3) * 10\<rparr>],
                     drawn := drawn st + 4\<rparr>
         else st1\<lparr>drawn := drawn st + 1\<rparr>)"

definition directions :: "(int \<times> int \<times> Direction) list" where
  "directions = [(0, -1, UP), (0, 1, DOWN), (-1, 0, LEFT), (1, 0, RIGHT)]"

text \<open>
  The \<open>for (let i = 1; i <= bomb.range; i++)\<close> loop of \<open>explodeBomb\<close> for one direction,
  from index \<open>i\<close> on. It threads the engine state and the list of cells collected so far.
\<close>

function blastRay ::
  "Bomb \<Rightarrow> int \<times> int \<times> Direction \<Rightarrow> int \<Rightarrow> GameEngine \<Rightarrow> ExplosionCell list \<Rightarrow>
   error + (GameEngine \<times> ExplosionCell list)" where
  "blastRay b d i st acc =
     (case d of (dx, dy, dir) \<Rightarrow>
        if i \<le> b_range b then
          let c = b_col b + dx * i;
              r = b_row b + dy * i
          in if r < 0 \<or> r \<ge> GRID_ROWS \<or> c < 0 \<or> c \<ge> GRID_COLS then Inr (st, acc)
             else case tileAt (grid st) r c of
                    Inl e \<Rightarrow> Inl e
                  | Inr tile \<Rightarrow>
                      if tile = Some WALL_HARD then Inr (st, acc)
                      else
                        let acc' = acc @ [\<lparr>c_col = c, c_row = r, isEnd = (i = b_range b),
                                            c_direction = dir\<rparr>]
                        in case findIndex (\<lambda>h. b_col h = c \<and> b_row h = r) (bombs st) of
                             Some k \<Rightarrow>
                               Inr (st\<lparr>bombs := (bombs st)[k := (bombs st ! k)\<lparr>b_timer := 0\<rparr>]\<rparr>,
                                    acc')
                           | None \<Rightarrow>
                               if tile = Some WALL_SOFT then Inr (destroyBlock st c r, acc')
                               else blastRay b d (i + 1) st acc'
        else Inr (st, acc))"
  by pat_completeness auto
termination
  by (relation "measure (\<lambda>(b, d, i, st, acc). nat (b_range b + 1 - i))") auto

declare blastRay.simps [simp del]

fun blastRays ::
  "Bomb \<Rightarrow> (int \<times> int \<times> Direction) list \<Rightarrow> GameEngine \<Rightarrow> ExplosionCell list \<Rightarrow>
   error + (GameEngine \<times> ExplosionCell list)" where
  "blastRays b [] st acc = Inr (st, acc)"
| "blastRays b (d # ds) st acc =
     (case blastRay b d 1 st acc of
        Inl e \<Rightarrow> Inl e
      | Inr (st', acc') \<Rightarrow> blastRays b ds st' acc')"

definition explodeBomb :: "GameEngine \<Rightarrow> Bomb \<Rightarrow> error + GameEngine" where
  "explodeBomb st b =
     (case blastRays b directions st
             [\<lparr>c_col = b_col b, c_row = b_row b, isEnd = False, c_direction = NONE\<rparr>] of
        Inl e \<Rightarrow> Inl e
      | Inr (st', cs) \<Rightarrow>
          Inr (st'\<lparr>explosions := explosions st' @
                        [\<lparr>x_id = randoms st' (drawn st'),
                          center = \<lparr>col = b_col b, row = b_row b\<rparr>,
                          cells = cs, x_timer = EXPLOSION_DURATION_MS\<rparr>],
                    drawn := Suc (drawn st')\<rparr>))"

definition killPlayer :: "GameEngine \<Rightarrow> real \<Rightarrow> GameEngine" where
  "killPlayer st now =
     (if invulnerableUntil (player st) > now \<or> p_isDead (player st) then st
      else
        let st1 = st\<lparr>lives := lives st - 1, player := (player st)\<lparr>p_isDead := True\<rparr>\<rparr>
        in if lives st1 \<le> 0
           then st1\<lparr>isGameOver := True, gameOverCalls := gameOverCalls st1 @ [False]\<rparr>
           else st1\<lparr>respawnsDue := respawnsDue st1 @ [now + 1000]\<rparr>)"

definition isPointBlocked :: "grid \<Rightarrow> Bomb list \<Rightarrow> real \<Rightarrow> real \<Rightarrow> error + bool" where
  "isPointBlocked gr bs x y =
     (let c = \<lfloor>x / TILE_SIZE\<rfloor>; r = \<lfloor>y / TILE_SIZE\<rfloor>
      in if r < 0 \<or> r \<ge> GRID_ROWS \<or> c < 0 \<or> c \<ge> GRID_COLS then Inr True
         else case tileAt gr r c of
                Inl e \<Rightarrow> Inl e
              | Inr t \<Rightarrow>
                  if t \<noteq> Some EMPTY then Inr True
                  else Inr (list_ex (\<lambda>b. b_col b = c \<and> b_row b = r) bs))"

text \<open>The rectangle test of \<open>checkCollision\<close> between the player's hitbox and a bomb's tile.\<close>

definition overlapsBomb :: "real \<times> real \<Rightarrow> Bomb \<Rightarrow> bool" where
  "overlapsBomb pl b =
     (let padding = 8;
          rx = fst pl + padding; ry = snd pl + padding;
          rw = TILE_SIZE - padding * 2; rh = TILE_SIZE - padding * 2;
          bx = real_of_int (b_col b) * TILE_SIZE; by = real_of_int (b_row b) * TILE_SIZE
      in rx < bx + TILE_SIZE \<and> rx + rw > bx \<and> ry < by + TILE_SIZE \<and> ry + rh > by)"

text \<open>
  One corner of \<open>checkCollision\<close>: out of the grid, on a wall, or on a bomb that is not
  excused (a bomb is excused for the player while the player's hitbox overlaps its tile).
\<close>

definition cornerBlocked ::
  "grid \<Rightarrow> Bomb list \<Rightarrow> real \<times> real \<Rightarrow> bool \<Rightarrow> int \<times> int \<Rightarrow> error + bool" where
  "cornerBlocked gr bs pl isPlayer p =
     (case p of (c, r) \<Rightarrow>
        if r < 0 \<or> r \<ge> GRID_ROWS \<or> c < 0 \<or> c \<ge> GRID_COLS then Inr True
        else case tileAt gr r c of
               Inl e \<Rightarrow> Inl e
             | Inr t \<Rightarrow>
                 if t \<noteq> Some EMPTY then Inr True
                 else Inr (list_ex (\<lambda>b. b_col b = c \<and> b_row b = r \<and>
                                        \<not> (isPlayer \<and> overlapsBomb pl b)) bs))"

fun anyCornerBlocked ::
  "grid \<Rightarrow> Bomb list \<Rightarrow> real \<times> real \<Rightarrow> bool \<Rightarrow> (int \<times> int) list \<Rightarrow> error + bool" where
  "anyCornerBlocked gr bs pl isPlayer [] = Inr False"
| "anyCornerBlocked gr bs pl isPlayer (p # ps) =
     (case cornerBlocked gr bs pl isPlayer p of
        Inl e \<Rightarrow> Inl e
      | Inr hit \<Rightarrow> if hit then Inr True else anyCornerBlocked gr bs pl isPlayer ps)"

text \<open>\<open>pl\<close> is the player's position at the time of the call (read through \<open>this.player\<close>).\<close>

definition checkCollision ::
  "grid \<Rightarrow> Bomb list \<Rightarrow> real \<times> real \<Rightarrow> real \<Rightarrow> real \<Rightarrow> real \<Rightarrow> real \<Rightarrow> bool \<Rightarrow>
   error + bool" where
  "checkCollision gr bs pl x y w h isPlayer =
     anyCornerBlocked gr bs pl isPlayer
       [(\<lfloor>x / TILE_SIZE\<rfloor>, \<lfloor>y / TILE_SIZE\<rfloor>),
        (\<lfloor>(x + w) / TILE_SIZE\<rfloor>, \<lfloor>y / TILE_SIZE\<rfloor>),
        (\<lfloor>x / TILE_SIZE\<rfloor>, \<lfloor>(y + h) / TILE_SIZE\<rfloor>),
        (\<lfloor>(x + w) / TILE_SIZE\<rfloor>, \<lfloor>(y + h) / TILE_SIZE\<rfloor>)]"

text \<open>
  The corner-sliding branch of \<open>moveEntity\<close> for one axis: \<open>a\<close> and \<open>b\<close> are the results of
  the two \<open>isPointBlocked\<close> probes, \<open>v\<close> the coordinate that is nudged.
\<close>

definition slide :: "bool \<Rightarrow> bool \<Rightarrow> real \<Rightarrow> real \<Rightarrow> real" where
  "slide a b v spd = (if a \<and> \<not> b then v + spd else if \<not> a \<and> b then v - spd else v)"

text \<open>
  \<open>moveEntity\<close> returns the entity's new position. \<open>isPlayer\<close> stands for
  \<open>entity === this.player\<close>; for the player the position that \<open>checkCollision\<close> reads
  through \<open>this.player\<close> is the entity's own current position.
\<close>

definition moveHorizontal ::
  "grid \<Rightarrow> Bomb list \<Rightarrow> bool \<Rightarrow> real \<times> real \<Rightarrow> real \<Rightarrow> real \<Rightarrow> error + (real \<times> real)" where
  "moveHorizontal gr bs isPlayer ent dx spd =
     (let padding = 8;
          size = TILE_SIZE - padding * 2;
          ex = fst ent; ey = snd ent;
          nextX = ex + dx * spd
      in case checkCollision gr bs ent (nextX + padding) (ey + padding) size size isPlayer of
           Inl e \<Rightarrow> Inl e
         | Inr hit \<Rightarrow>
             if \<not> hit then Inr (nextX, ey)
             else if isPlayer \<and> dx \<noteq> 0 then
               let leadingEdgeX = (if dx > 0 then nextX + padding + size else nextX + padding);
                   topY = ey + padding;
                   bottomY = ey + padding + size
               in case isPointBlocked gr bs leadingEdgeX topY of
                    Inl e \<Rightarrow> Inl e
                  | Inr topBlocked \<Rightarrow>
                      case isPointBlocked gr bs leadingEdgeX bottomY of
                        Inl e \<Rightarrow> Inl e
                      | Inr bottomBlocked \<Rightarrow> Inr (ex, slide topBlocked bottomBlocked ey spd)
             else Inr (ex, ey))"

text \<open>\<open>nextY\<close> was computed from the position the entity had when \<open>moveEntity\<close> was entered.\<close>

definition moveVertical ::
  "grid \<Rightarrow> Bomb list \<Rightarrow> bool \<Rightarrow> real \<times> real \<Rightarrow> real \<Rightarrow> real \<Rightarrow> real \<Rightarrow>
   error + (real \<times> real)" where
  "moveVertical gr bs isPlayer ent nextY dy spd =
     (let padding = 8;
          size = TILE_SIZE - padding * 2;
          ex = fst ent; ey = snd ent
      in case checkCollision gr bs ent (ex + padding) (nextY + padding) size size isPlayer of
           Inl e \<Rightarrow> Inl e
         | Inr hit \<Rightarrow>
             if \<not> hit then Inr (ex, nextY)
             else if isPlayer \<and> dy \<noteq> 0 then
               let leadingEdgeY = (if dy > 0 then nextY + padding + size else nextY + padding);
                   leftX = ex + padding;
                   rightX = ex + padding + size
               in case isPointBlocked gr bs leftX leadingEdgeY of
                    Inl e \<Rightarrow> Inl e
                  | Inr leftBlocked \<Rightarrow>
                      case isPointBlocked gr bs rightX leadingEdgeY of
                        Inl e \<Rightarrow> Inl e
                      | Inr rightBlocked \<Rightarrow> Inr (slide leftBlocked rightBlocked ex spd, ey)
             else Inr (ex, ey))"

definition moveEntity ::
  "grid \<Rightarrow> Bomb list \<Rightarrow> bool \<Rightarrow> real \<times> real \<Rightarrow> real \<Rightarrow> real \<Rightarrow> real \<Rightarrow>
   error + (real \<times> real)" where
  "moveEntity gr bs isPlayer ent dx dy spd =
     (let nextY = snd ent + dy * spd
      in case moveHorizontal gr bs isPlayer ent dx spd of
           Inl e \<Rightarrow> Inl e
         | Inr ent1 \<Rightarrow>
             case moveVertical gr bs isPlayer ent1 nextY dy spd of
               Inl e \<Rightarrow> Inl e
             | Inr ent2 \<Rightarrow>
                 Inr (max 0 (min (fst ent2) (CANVAS_WIDTH - TILE_SIZE)),
                      max 0 (min (snd ent2) (CANVAS_HEIGHT - TILE_SIZE))))"

text \<open>
  The direction vector that \<open>update\<close> computes from the held keys, with the scaling that
  follows it in the source.
\<close>

definition inputVector :: "Input \<Rightarrow> real \<times> real" where
  "inputVector inp =
     (let d = (if up inp then (0, -1)
               else if down inp then (0, 1)
               else if left inp then (-1, 0)
               else if right inp then (1, 0)
               else (0, 0));
          dx = fst d; dy = snd d;
          invSqrt2 = 0.7071
      in if dx \<noteq> 0 \<and> dy \<noteq> 0 then (dx * invSqrt2, dy * invSqrt2) else (dx, dy))"

definition movePlayer :: "real \<Rightarrow> GameEngine \<Rightarrow> error + GameEngine" where
  "movePlayer dt st =
     (let dx = fst (inputVector (input st)); dy = snd (inputVector (input st));
          p = player st
      in case (if dx \<noteq> 0 \<or> dy \<noteq> 0
               then case moveEntity (grid st) (bombs st) True (p_x p, p_y p) dx dy (p_speed p) of
                      Inl e \<Rightarrow> Inl e
                    | Inr pos \<Rightarrow>
                        Inr (p\<lparr>p_x := fst pos, p_y := snd pos, isMoving := True,
                               animFrame := animFrame p + dt * 0.01,
                               p_direction :=
                                 (if \<bar>dx\<bar> > \<bar>dy\<bar> then (if dx > 0 then RIGHT else LEFT)
                                  else (if dy > 0 then DOWN else UP))\<rparr>)
               else Inr (p\<lparr>isMoving := False, p_x := real_of_int (round (p_x p)),
                            p_y := real_of_int (round (p_y p))\<rparr>)) of
           Inl e \<Rightarrow> Inl e
         | Inr p1 \<Rightarrow>
             Inr (st\<lparr>player := p1\<lparr>gridX := centerCell (p_x p1), gridY := centerCell (p_y p1)\<rparr>\<rparr>))"

definition bombPlacement :: "GameEngine \<Rightarrow> GameEngine" where
  "bombPlacement st =
     (if bomb (input st) \<and> \<not> bombPressed (input st)
      then placeBomb (st\<lparr>input := (input st)\<lparr>bombPressed := True\<rparr>\<rparr>)
      else st)"

text \<open>
  The loop over the bombs, from the last index down to 0. \<open>bombsLoop dt n st\<close> has the
  indices below \<open>n\<close> still to visit; index \<open>n - 1\<close> is visited next.
\<close>

fun bombsLoop :: "real \<Rightarrow> nat \<Rightarrow> GameEngine \<Rightarrow> error + GameEngine" where
  "bombsLoop dt 0 st = Inr st"
| "bombsLoop dt (Suc i) st =
     (let b = (bombs st ! i)\<lparr>b_timer := b_timer (bombs st ! i) - dt\<rparr>;
          st1 = st\<lparr>bombs := (bombs st)[i := b]\<rparr>
      in if b_timer b \<le> 0
         then case explodeBomb st1 b of
                Inl e \<Rightarrow> Inl e
              | Inr st2 \<Rightarrow>
                  bombsLoop dt i
                    (st2\<lparr>bombs := splice1 i (bombs st2),
                         player := (if ownerId b = ''player''
                                    then (player st2)\<lparr>bombsCount := bombsCount (player st2) - 1\<rparr>
                                    else player st2)\<rparr>)
         else bombsLoop dt i st1)"

definition updateBombs :: "real \<Rightarrow> GameEngine \<Rightarrow> error + GameEngine" where
  "updateBombs dt st = bombsLoop dt (length (bombs st)) st"

text \<open>
  The enemy part of the damage test for one explosion cell: the enemies in order, with the
  score and the countdown they change.
\<close>

definition enemyCell :: "Enemy \<Rightarrow> int \<times> int" where
  "enemyCell e = (centerCell (e_x e), centerCell (e_y e))"

definition hitEnemy :: "real \<Rightarrow> ExplosionCell \<Rightarrow> Enemy \<Rightarrow> Enemy \<times> int \<times> int" where
  "hitEnemy now cell e =
     (if enemyCell e = (c_col cell, c_row cell) \<and> \<not> e_isDead e
      then if isBoss e \<and> now - lastHitTime e < 1000 then (e, 0, 0)
           else
             let e1 = e\<lparr>hp := hp e - 1, lastHitTime := now\<rparr>
             in if hp e1 \<le> 0
                then (e1\<lparr>e_isDead := True\<rparr>, (if isBoss e then 500 else 100),
                      (if isBoss e then 30 else 10))
                else (e1, 0, 0)
      else (e, 0, 0))"

definition hitEnemies :: "real \<Rightarrow> ExplosionCell \<Rightarrow> GameEngine \<Rightarrow> GameEngine" where
  "hitEnemies now cell st =
     (let rs = map (hitEnemy now cell) (enemies st)
      in st\<lparr>enemies := map fst rs,
             score := score st + sum_list (map (\<lambda>r. fst (snd r)) rs),
             gameTime := gameTime st + sum_list (map (\<lambda>r. snd (snd r)) rs)\<rparr>)"

definition hitCell :: "real \<Rightarrow> GameEngine \<Rightarrow> ExplosionCell \<Rightarrow> GameEngine" where
  "hitCell now st cell =
     (let playerCenterCol = centerCell (p_x (player st));
          playerCenterRow = centerCell (p_y (player st));
          st1 = (if playerCenterCol = c_col cell \<and> playerCenterRow = c_row cell
                 then killPlayer st now else st)
      in hitEnemies now cell st1)"

fun explosionsLoop :: "real \<Rightarrow> real \<Rightarrow> nat \<Rightarrow> GameEngine \<Rightarrow> GameEngine" where
  "explosionsLoop dt now 0 st = st"
| "explosionsLoop dt now (Suc i) st =
     (let ex = (explosions st ! i)\<lparr>x_timer := x_timer (explosions st ! i) - dt\<rparr>;
          st1 = st\<lparr>explosions := (explosions st)[i := ex]\<rparr>;
          st2 = foldl (hitCell now) st1 (cells ex)
      in explosionsLoop dt now i
           (if x_timer ex \<le> 0 then st2\<lparr>explosions := splice1 i (explosions st2)\<rparr> else st2))"

definition updateExplosions :: "real \<Rightarrow> real \<Rightarrow> GameEngine \<Rightarrow> GameEngine" where
  "updateExplosions dt now st = explosionsLoop dt now (length (explosions st)) st"

text \<open>The enemy AI. \<open>n\<close> is the number of random draws made so far; it is returned updated.\<close>

definition stepToward :: "real \<Rightarrow> real \<Rightarrow> real" where
  "stepToward v goal = (if \<bar>v - goal\<bar> > 1 then (if goal > v then 1 else -1) else 0)"

definition followPath :: "GameEngine \<Rightarrow> Enemy \<Rightarrow> nat \<Rightarrow> error + (Enemy \<times> nat)" where
  "followPath st e n =
     (let nextStep = hd (e_path e)
      in if list_ex (\<lambda>b. b_col b = col nextStep \<and> b_row b = row nextStep) (bombs st)
         then Inr (e\<lparr>e_path := []\<rparr>, n)
         else
           let targetX = real_of_int (col nextStep) * TILE_SIZE;
               targetY = real_of_int (row nextStep) * TILE_SIZE;
               distSq = (e_x e - targetX)\<^sup>2 + (e_y e - targetY)\<^sup>2
           in if distSq < 16
              then
                let e1 = e\<lparr>e_x := targetX, e_y := targetY, e_path := tl (e_path e)\<rparr>
                in Inr (if e_path e1 = [] then e1\<lparr>recalcPathTimer := 0\<rparr> else e1, n)
              else
                let dx0 = stepToward (e_x e) targetX;
                    dy0 = stepToward (e_y e) targetY;
                    dx = (if dx0 \<noteq> 0 \<and> dy0 \<noteq> 0 \<and> \<not> \<bar>e_x e - targetX\<bar> > \<bar>e_y e - targetY\<bar>
                          then 0 else dx0);
                    dy = (if dx0 \<noteq> 0 \<and> dy0 \<noteq> 0 \<and> \<bar>e_x e - targetX\<bar> > \<bar>e_y e - targetY\<bar>
                          then 0 else dy0)
                in case moveEntity (grid st) (bombs st) False (e_x e, e_y e) dx dy (e_speed e) of
                     Inl err \<Rightarrow> Inl err
                   | Inr pos \<Rightarrow> Inr (e\<lparr>e_x := fst pos, e_y := snd pos\<rparr>, n))"

definition walkerCellOk :: "grid \<Rightarrow> Bomb list \<Rightarrow> GridPoint \<Rightarrow> error + bool" where
  "walkerCellOk gr bs p =
     (if col p \<ge> 0 \<and> col p < GRID_COLS \<and> row p \<ge> 0 \<and> row p < GRID_ROWS
      then case tileAt gr (row p) (col p) of
             Inl e \<Rightarrow> Inl e
           | Inr t \<Rightarrow>
               Inr (t = Some EMPTY \<and> \<not> list_ex (\<lambda>b. b_col b = col p \<and> b_row b = row p) bs)
      else Inr False)"

fun filterValid :: "grid \<Rightarrow> Bomb list \<Rightarrow> GridPoint list \<Rightarrow> error + GridPoint list" where
  "filterValid gr bs [] = Inr []"
| "filterValid gr bs (p # ps) =
     (case walkerCellOk gr bs p of
        Inl e \<Rightarrow> Inl e
      | Inr ok \<Rightarrow>
          case filterValid gr bs ps of
            Inl e \<Rightarrow> Inl e
          | Inr r \<Rightarrow> Inr (if ok then p # r else r))"

text \<open>
  The choice of a target. For a walker the index \<open>Math.floor(Math.random() * valid.length)\<close>
  selects a cell; an index outside the array would read \<open>undefined\<close>, which is no target.
\<close>

definition chooseTarget ::
  "GameEngine \<Rightarrow> Enemy \<Rightarrow> int \<Rightarrow> int \<Rightarrow> nat \<Rightarrow> error + (GridPoint option \<times> nat)" where
  "chooseTarget st e gridCol gridRow n =
     (if e_type e = CHASER
      then Inr (Some \<lparr>col = gridX (player st), row = gridY (player st)\<rparr>, n)
      else
        case filterValid (grid st) (bombs st)
               [\<lparr>col = gridCol + 1, row = gridRow\<rparr>, \<lparr>col = gridCol - 1, row = gridRow\<rparr>,
                \<lparr>col = gridCol, row = gridRow + 1\<rparr>, \<lparr>col = gridCol, row = gridRow - 1\<rparr>,
                \<lparr>col = gridCol + 2, row = gridRow\<rparr>, \<lparr>col = gridCol - 2, row = gridRow\<rparr>,
                \<lparr>col = gridCol, row = gridRow + 2\<rparr>, \<lparr>col = gridCol, row = gridRow - 2\<rparr>] of
          Inl err \<Rightarrow> Inl err
        | Inr valid \<Rightarrow>
            if valid \<noteq> []
            then
              let k = \<lfloor>randoms st n * real (length valid)\<rfloor>
              in Inr (if 0 \<le> k \<and> k < int (length valid) then Some (valid ! nat k) else None,
                      n + 1)
            else Inr (None, n))"

definition replan ::
  "GameEngine \<Rightarrow> real \<Rightarrow> Enemy \<Rightarrow> int \<Rightarrow> int \<Rightarrow> nat \<Rightarrow> error + (Enemy \<times> nat)" where
  "replan st reactionTime e gridCol gridRow n =
     (let delay = (if isBoss e then 500 else 300);
          e1 = e\<lparr>recalcPathTimer := reactionTime + delay + randoms st n * 200\<rparr>;
          start = \<lparr>col = gridCol, row = gridRow\<rparr>
      in case chooseTarget st e1 gridCol gridRow (n + 1) of
           Inl err \<Rightarrow> Inl err
         | Inr (None, n1) \<Rightarrow> Inr (e1, n1)
         | Inr (Some target, n1) \<Rightarrow>
             case findPath start target (grid st)
                    (map (\<lambda>b. \<lparr>col = b_col b, row = b_row b\<rparr>) (bombs st)) of
               Inl err \<Rightarrow> Inl err
             | Inr None \<Rightarrow> Inr (e1, n1)
             | Inr (Some pth) \<Rightarrow>
                 if pth \<noteq> []
                 then Inr (e1\<lparr>e_path := (if col (hd pth) = gridCol \<and> row (hd pth) = gridRow
                                           then tl pth else pth)\<rparr>, n1)
                 else Inr (e1, n1))"

definition idleStep :: "GameEngine \<Rightarrow> real \<Rightarrow> Enemy \<Rightarrow> nat \<Rightarrow> error + (Enemy \<times> nat)" where
  "idleStep st reactionTime e n =
     (let gridCol = round (e_x e / TILE_SIZE);
          gridRow = round (e_y e / TILE_SIZE);
          centerX = real_of_int gridCol * TILE_SIZE;
          centerY = real_of_int gridRow * TILE_SIZE;
          distSq = (e_x e - centerX)\<^sup>2 + (e_y e - centerY)\<^sup>2
      in if distSq > 4
         then case moveEntity (grid st) (bombs st) False (e_x e, e_y e)
                     (stepToward (e_x e) centerX) (stepToward (e_y e) centerY) (e_speed e) of
                Inl err \<Rightarrow> Inl err
              | Inr pos \<Rightarrow> Inr (e\<lparr>e_x := fst pos, e_y := snd pos\<rparr>, n)
         else
           let e1 = e\<lparr>e_x := centerX, e_y := centerY\<rparr>
           in if recalcPathTimer e1 \<le> 0 then replan st reactionTime e1 gridCol gridRow n
              else Inr (e1, n))"

definition updateEnemyAI :: "GameEngine \<Rightarrow> real \<Rightarrow> Enemy \<Rightarrow> nat \<Rightarrow> error + (Enemy \<times> nat)" where
  "updateEnemyAI st dt e0 n =
     (let e = e0\<lparr>recalcPathTimer := recalcPathTimer e0 - dt\<rparr>;
          reactionBase = (if level st \<ge> 5 then 1500 - (level st - 4) * 200 else 1500);
          reactionTime = (if isBoss e then 400 else real_of_int (max 400 reactionBase))
      in if e_path e \<noteq> [] then followPath st e n else idleStep st reactionTime e n)"

fun aiLoop :: "GameEngine \<Rightarrow> real \<Rightarrow> Enemy list \<Rightarrow> nat \<Rightarrow> error + (Enemy list \<times> nat)" where
  "aiLoop st dt [] n = Inr ([], n)"
| "aiLoop st dt (e # es) n =
     (case updateEnemyAI st dt e n of
        Inl err \<Rightarrow> Inl err
      | Inr (e', n') \<Rightarrow>
          case aiLoop st dt es n' of
            Inl err \<Rightarrow> Inl err
          | Inr (es', n'') \<Rightarrow> Inr (e' # es', n''))"

definition updateEnemies :: "real \<Rightarrow> GameEngine \<Rightarrow> error + GameEngine" where
  "updateEnemies dt st =
     (let st1 = st\<lparr>enemies := filter (\<lambda>e. \<not> e_isDead e) (enemies st)\<rparr>;
          st2 = (if enemies st1 = [] \<and> \<not> isVictory st1 \<and> \<not> isLevelTransitioning st1 \<and>
                    \<not> isLevelComplete st1
                 then st1\<lparr>isLevelComplete := True,
                          levelCompleteCalls := Suc (levelCompleteCalls st1)\<rparr>
                 else st1)
      in if \<not> isLevelComplete st2
         then case aiLoop st2 dt (enemies st2) (drawn st2) of
                Inl err \<Rightarrow> Inl err
              | Inr (es, n) \<Rightarrow> Inr (st2\<lparr>enemies := es, drawn := n\<rparr>)
         else Inr st2)"

definition applyPowerUp :: "GameEngine \<Rightarrow> PowerUp \<Rightarrow> GameEngine" where
  "applyPowerUp st p =
     (let st1 = st\<lparr>score := score st + 50\<rparr>; pl = player st1
      in case u_type p of
           BOMB_UP \<Rightarrow> st1\<lparr>player := pl\<lparr>maxBombs := maxBombs pl + 1\<rparr>\<rparr>
         | FIRE_UP \<Rightarrow> st1\<lparr>player := pl\<lparr>bombRange := bombRange pl + 1\<rparr>\<rparr>
         | SPEED_UP \<Rightarrow> st1\<lparr>player := pl\<lparr>p_speed := min (p_speed pl + 1) 9\<rparr>\<rparr>
         | SUPER_BOMB \<Rightarrow> st1\<lparr>player := pl\<lparr>bombRange := 12\<rparr>\<rparr>
         | TIME_BONUS \<Rightarrow> st1\<lparr>gameTime := gameTime st1 + 30\<rparr>)"

fun powerUpsLoop :: "nat \<Rightarrow> GameEngine \<Rightarrow> GameEngine" where
  "powerUpsLoop 0 st = st"
| "powerUpsLoop (Suc i) st =
     (let p = powerUps st ! i
      in if gridX (player st) = u_col p \<and> gridY (player st) = u_row p
         then powerUpsLoop i ((applyPowerUp st p)\<lparr>powerUps := splice1 i (powerUps st)\<rparr>)
         else powerUpsLoop i st)"

definition checkPowerUps :: "GameEngine \<Rightarrow> GameEngine" where
  "checkPowerUps st = powerUpsLoop (length (powerUps st)) st"

definition hypot :: "real \<Rightarrow> real \<Rightarrow> real" where
  "hypot a b = sqrt (a\<^sup>2 + b\<^sup>2)"

definition touchEnemy :: "real \<Rightarrow> GameEngine \<Rightarrow> Enemy \<Rightarrow> GameEngine" where
  "touchEnemy now st e =
     (let dist = hypot (p_x (player st) - e_x e) (p_y (player st) - e_y e)
      in if dist < TILE_SIZE * 0.7 then killPlayer st now else st)"

definition checkPlayerEnemy :: "real \<Rightarrow> GameEngine \<Rightarrow> GameEngine" where
  "checkPlayerEnemy now st =
     (if invulnerableUntil (player st) < now then foldl (touchEnemy now) st (enemies st) else st)"

definition countdown :: "real \<Rightarrow> real \<Rightarrow> GameEngine \<Rightarrow> GameEngine" where
  "countdown dt now st =
     (if \<lfloor>now / 1000\<rfloor> \<noteq> \<lfloor>(now - dt) / 1000\<rfloor>
      then
        let st1 = st\<lparr>gameTime := gameTime st - 1\<rparr>
        in if gameTime st1 \<le> 0 then killPlayer st1 now else st1
      else st)"

definition emitStats :: "GameEngine \<Rightarrow> GameEngine" where
  "emitStats st =
     st\<lparr>statsCalls := statsCalls st @
           [\<lparr>s_score = score st, s_lives = lives st, s_level = level st,
             timeLeft = max 0 (gameTime st)\<rparr>]\<rparr>"

text \<open>
  One call of \<open>update(dt)\<close>, with \<open>now\<close> the clock reading of the tick. \<open>damagePhases\<close> are
  its steps 1 to 4 (movement, bomb placement, bombs, explosions with their damage); steps 5
  to 7 and the stats update follow.
\<close>

definition damagePhases :: "real \<Rightarrow> real \<Rightarrow> GameEngine \<Rightarrow> error + GameEngine" where
  "damagePhases dt now st =
     (case movePlayer dt st of
        Inl e \<Rightarrow> Inl e
      | Inr s1 \<Rightarrow>
          case updateBombs dt (bombPlacement s1) of
            Inl e \<Rightarrow> Inl e
          | Inr s3 \<Rightarrow> Inr (updateExplosions dt now s3))"

definition update :: "real \<Rightarrow> real \<Rightarrow> GameEngine \<Rightarrow> error + GameEngine" where
  "update dt now st =
     (case damagePhases dt now st of
        Inl e \<Rightarrow> Inl e
      | Inr s4 \<Rightarrow>
          case updateEnemies dt s4 of
            Inl e \<Rightarrow> Inl e
          | Inr s5 \<Rightarrow>
              Inr (emitStats (countdown dt now (checkPlayerEnemy now (checkPowerUps s5)))))"


text \<open>The callback that \<open>killPlayer\<close> schedules with \<open>setTimeout\<close>, run at clock reading \<open>now\<close>.\<close>

definition respawn :: "real \<Rightarrow> GameEngine \<Rightarrow> GameEngine" where
  "respawn now st =
     (let st1 = st\<lparr>player := (player st)\<lparr>p_x := TILE_SIZE, p_y := TILE_SIZE, p_isDead := False,
                                           invulnerableUntil := now + 3000\<rparr>\<rparr>
      in st1\<lparr>statsCalls := statsCalls st1 @
                [\<lparr>s_score = score st1, s_lives = lives st1, s_level = level st1,
                  timeLeft = gameTime st1\<rparr>]\<rparr>)"

subsection \<open>Vocabulary for the statements about blast rays\<close>










subsection \<open>Projections and concrete states for the statements about a tick\<close>



definition farWalker :: Enemy where
  "farWalker = \<lparr>e_id = 1 / 2, e_x = 13 * 48, e_y = 11 * 48, e_type = WALKER, isBoss = False,
     hp = 1, maxHp = 1, lastHitTime = 0, e_direction = LEFT, targetCol = None,
     targetRow = None, e_path = [], recalcPathTimer = 500, e_isDead = False, e_speed = 2,
     animOffset = 0\<rparr>"

definition fireAt11 :: Explosion where
  "fireAt11 = \<lparr>x_id = 0, center = \<lparr>col = 1, row = 1\<rparr>,
     cells = [\<lparr>c_col = 1, c_row = 1, isEnd = False, c_direction = NONE\<rparr>,
              \<lparr>c_col = 2, c_row = 1, isEnd = True, c_direction = RIGHT\<rparr>],
     x_timer = 600\<rparr>"

definition dangerEngine :: GameEngine where
  "dangerEngine = baseEngine\<lparr>player := createPlayer\<lparr>invulnerableUntil := 2500\<rparr>,
     explosions := [fireAt11],
     enemies := [farWalker\<lparr>e_x := 78, e_y := 48, isBoss := True, hp := 3, maxHp := 3\<rparr>]\<rparr>"

definition timeoutEngine :: GameEngine where
  "timeoutEngine = baseEngine\<lparr>gameTime := 1, enemies := [farWalker]\<rparr>"

subsection \<open>Frames of a level and the level-complete test\<close>





subsection \<open>Chain reactions: vocabulary and concrete states\<close>










section \<open>Properties of the pathfinding\<close>

lemma lowestFrom_single: "lowestFrom [n] (Suc 0) 0 = 0"
  by (simp add: lowestFrom.simps)

lemma findIndex_Some:
  "findIndex P xs = Some k \<Longrightarrow> k < length xs \<and> P (xs ! k) \<and> (\<forall>j<k. \<not> P (xs ! j))"
proof (induction xs arbitrary: k)
  case Nil
  then show ?case by simp
next
  case (Cons a as)
  show ?case
  proof (cases "P a")
    case True
    with Cons.prems show ?thesis by simp
  next
    case False
    with Cons.prems obtain k' where k': "findIndex P as = Some k'" "k = Suc k'" by auto
    from Cons.IH[OF k'(1)] False k'(2) show ?thesis
      by (auto simp: nth_Cons split: nat.splits)
  qed
qed


lemma lowestFrom_bound:
  "lowestIndex < length openSet \<Longrightarrow> lowestFrom openSet i lowestIndex < length openSet"
proof (induction openSet i lowestIndex rule: lowestFrom.induct)
  case (1 openSet i lowestIndex)
  then show ?case by (subst lowestFrom.simps) auto
qed

lemma walkParents_root:
  "\<exists>cells. walkParents n = cells @ [rootCell n] \<and>
      (tailFree bs n \<longrightarrow> (\<forall>p\<in>set cells. \<not> bombAt bs (col p) (row p)))"
proof (induction n rule: rootCell.induct)
  case (1 x y g h f)
  show ?case by simp
next
  case (2 x y g h f p)
  then obtain cells where c: "walkParents p = cells @ [rootCell p]"
     "tailFree bs p \<longrightarrow> (\<forall>q\<in>set cells. \<not> bombAt bs (col q) (row q))" by blast
  have "walkParents (PathNode x y g h f (Some p)) = (\<lparr>col = x, row = y\<rparr> # cells) @ [rootCell (PathNode x y g h f (Some p))]"
    using c(1) by simp
  moreover have "tailFree bs (PathNode x y g h f (Some p)) \<longrightarrow> (\<forall>q\<in>set (\<lparr>col = x, row = y\<rparr> # cells). \<not> bombAt bs (col q) (row q))"
    using c(2) by simp
  ultimately show ?case by blast
qed

lemma isWalkable_no_bomb:
  "isWalkable x y gr bs False = Inr True \<Longrightarrow> \<not> bombAt bs x y"
  by (auto simp: isWalkable_def split: if_splits sum.splits)

lemma visitNeighbor_nodeOk:
  assumes "visitNeighbor target gr bs closedSet current openSet nb = Inr openSet'"
    and "nodeOk start bs current" and "\<forall>n\<in>set openSet. nodeOk start bs n"
  shows "\<forall>n\<in>set openSet'. nodeOk start bs n"
proof -
  obtain x y where nb: "nb = (x, y)" by (cases nb)
  show ?thesis
  proof (cases "(x, y) \<in> closedSet \<or> isWalkable x y gr bs False \<noteq> Inr True")
    case True
    then have "openSet' = openSet"
      using assms(1) nb by (auto simp: visitNeighbor_def split: sum.splits if_splits)
    then show ?thesis using assms(3) by simp
  next
    case False
    then have w: "isWalkable x y gr bs False = Inr True" and nc: "(x, y) \<notin> closedSet" by auto
    have nbm: "\<not> bombAt bs x y" using w by (rule isWalkable_no_bomb)
    have new: "\<And>a b c. nodeOk start bs (PathNode x y a b c (Some current))"
      using nbm assms(2) by (simp add: nodeOk_def)
    show ?thesis
    proof (cases "findIndex (\<lambda>n. node_x n = x \<and> node_y n = y) openSet")
      case None
      then have "openSet' = openSet @ [PathNode x y (node_g current + 1)
           (heuristic \<lparr>col = x, row = y\<rparr> target) (node_g current + 1 + heuristic \<lparr>col = x, row = y\<rparr> target) (Some current)]"
        using assms(1) nb w nc by (simp add: visitNeighbor_def Let_def)
      then show ?thesis using assms(3) new by auto
    next
      case (Some k)
      define nn where "nn = PathNode (node_x (openSet ! k)) (node_y (openSet ! k))
              (node_g current + 1) (node_h (openSet ! k)) (node_g current + 1 + node_h (openSet ! k)) (Some current)"
      have xy: "node_x (openSet ! k) = x" "node_y (openSet ! k) = y"
        using findIndex_Some[OF Some] by simp_all
      have okn: "nodeOk start bs nn" unfolding nn_def xy by (rule new)
      have "openSet' = openSet \<or> openSet' = openSet[k := nn]"
        using assms(1) nb w nc Some unfolding nn_def
        by (simp add: visitNeighbor_def Let_def split: if_splits)
      then have "set openSet' \<subseteq> insert nn (set openSet)"
        using set_update_subset_insert[of openSet k nn] by auto
      then show ?thesis using assms(3) okn by blast
    qed
  qed
qed

lemma visitNeighbors_nodeOk:
  "visitNeighbors target gr bs closedSet current openSet nbs = Inr openSet' \<Longrightarrow>
   nodeOk start bs current \<Longrightarrow> \<forall>n\<in>set openSet. nodeOk start bs n \<Longrightarrow>
   \<forall>n\<in>set openSet'. nodeOk start bs n"
proof (induction nbs arbitrary: openSet)
  case Nil
  then show ?case by simp
next
  case (Cons nb nbs)
  from Cons.prems(1) obtain mid where
    mid: "visitNeighbor target gr bs closedSet current openSet nb = Inr mid"
    and rest: "visitNeighbors target gr bs closedSet current mid nbs = Inr openSet'"
    by (auto split: sum.splits)
  have "\<forall>n\<in>set mid. nodeOk start bs n"
    using visitNeighbor_nodeOk[OF mid Cons.prems(2) Cons.prems(3)] .
  then show ?case using Cons.IH[OF rest Cons.prems(2)] by blast
qed

lemma set_splice1: "set (splice1 k xs) \<subseteq> set xs"
  by (auto simp: splice1_def dest: in_set_takeD in_set_dropD)

lemma searchLoop_found:
  "openSet \<noteq> [] \<Longrightarrow> iterations < MAX_ITERATIONS \<Longrightarrow>
   cur = openSet ! lowestFrom openSet 1 0 \<Longrightarrow>
   node_x cur = col target \<and> node_y cur = row target \<Longrightarrow>
   searchLoop target gr bs iterations openSet closedSet = Inr (Some (rev (walkParents cur)))"
  by (subst searchLoop.simps) (simp add: Let_def del: One_nat_def)

lemma searchLoop_continue:
  "openSet \<noteq> [] \<Longrightarrow> iterations < MAX_ITERATIONS \<Longrightarrow>
   cur = openSet ! lowestFrom openSet 1 0 \<Longrightarrow>
   \<not> (node_x cur = col target \<and> node_y cur = row target) \<Longrightarrow>
   searchLoop target gr bs iterations openSet closedSet =
     (case visitNeighbors target gr bs (insert (node_x cur, node_y cur) closedSet) cur
             (splice1 (lowestFrom openSet 1 0) openSet) (neighborsOf cur) of
        Inl e \<Rightarrow> Inl e
      | Inr openSet' \<Rightarrow>
          searchLoop target gr bs (iterations + 1) openSet'
            (insert (node_x cur, node_y cur) closedSet))"
proof -
  assume a: "openSet \<noteq> []" "iterations < MAX_ITERATIONS" "cur = openSet ! lowestFrom openSet 1 0"
    "\<not> (node_x cur = col target \<and> node_y cur = row target)"
  have b: "\<not> iterations + 1 > MAX_ITERATIONS" using a(2) by simp
  show ?thesis
    unfolding searchLoop.simps[of target gr bs iterations openSet closedSet] Let_def
      a(3)[symmetric] if_not_P[OF a(1)] if_not_P[OF b] if_not_P[OF a(4)] ..
qed

lemma searchLoop_stop:
  "openSet = [] \<or> \<not> iterations < MAX_ITERATIONS \<Longrightarrow>
   searchLoop target gr bs iterations openSet closedSet = Inr None"
  by (subst searchLoop.simps) auto

lemma lowest_in_set: "openSet \<noteq> [] \<Longrightarrow> openSet ! lowestFrom openSet 1 0 \<in> set openSet"
  by (rule nth_mem, rule lowestFrom_bound) simp

lemma searchLoop_nodeOk:
  "searchLoop target gr bs iterations openSet closedSet = Inr (Some path) \<Longrightarrow>
   \<forall>n\<in>set openSet. nodeOk start bs n \<Longrightarrow>
   \<exists>n. nodeOk start bs n \<and> path = rev (walkParents n)"
proof (induction target gr bs iterations openSet closedSet rule: searchLoop.induct)
  case (1 target gr bs iterations openSet closedSet)
  define cur where "cur = openSet ! lowestFrom openSet 1 0"
  from "1.prems"(1) have ne: "openSet \<noteq> []" and it: "iterations < MAX_ITERATIONS"
    using searchLoop_stop[of openSet iterations target gr bs closedSet] by auto
  have it': "\<not> MAX_ITERATIONS < iterations + 1" using it by simp
  have curok: "nodeOk start bs cur"
    unfolding cur_def using lowest_in_set[OF ne] "1.prems"(2) by blast
  show ?case
  proof (cases "node_x cur = col target \<and> node_y cur = row target")
    case True
    then have "path = rev (walkParents cur)"
      using "1.prems"(1) searchLoop_found[OF ne it cur_def True, of gr bs closedSet] by simp
    then show ?thesis using curok by blast
  next
    case False
    have eq: "searchLoop target gr bs iterations openSet closedSet =
     (case visitNeighbors target gr bs (insert (node_x cur, node_y cur) closedSet) cur
             (splice1 (lowestFrom openSet 1 0) openSet) (neighborsOf cur) of
        Inl e \<Rightarrow> Inl e
      | Inr openSet' \<Rightarrow>
          searchLoop target gr bs (iterations + 1) openSet'
            (insert (node_x cur, node_y cur) closedSet))"
      using searchLoop_continue[OF ne it cur_def False] .
    define res where "res = visitNeighbors target gr bs (insert (node_x cur, node_y cur) closedSet) cur
             (splice1 (lowestFrom openSet 1 0) openSet) (neighborsOf cur)"
    have X: "(case res of Inl e \<Rightarrow> Inl e
              | Inr openSet' \<Rightarrow> searchLoop target gr bs (iterations + 1) openSet'
                  (insert (node_x cur, node_y cur) closedSet)) = Inr (Some path)"
      unfolding res_def using trans[OF eq[symmetric] "1.prems"(1)] .
    show ?thesis
    proof (cases res)
      case (Inl e)
      with X show ?thesis by simp
    next
      case (Inr openSet')
      with X have rec: "searchLoop target gr bs (iterations + 1) openSet'
              (insert (node_x cur, node_y cur) closedSet) = Inr (Some path)" by simp
      have sp: "\<forall>n\<in>set (splice1 (lowestFrom openSet 1 0) openSet). nodeOk start bs n"
      proof
        fix n assume "n \<in> set (splice1 (lowestFrom openSet 1 0) openSet)"
        then have "n \<in> set openSet" using set_splice1[of "lowestFrom openSet 1 0" openSet] by (rule rev_subsetD)
        then show "nodeOk start bs n" by (rule "1.prems"(2)[THEN bspec])
      qed
      have ok': "\<forall>n\<in>set openSet'. nodeOk start bs n"
        using visitNeighbors_nodeOk[OF Inr[unfolded res_def] curok sp] .
      show ?thesis
        using "1.IH"[OF ne it' refl refl False[unfolded cur_def] Inr[unfolded res_def cur_def] rec[unfolded cur_def] ok'] .
    qed
  qed
qed

text \<open>
  C10: with start equal to target, \<open>findPath\<close> returns the one-cell path \<open>[start]\<close>, whatever
  the grid (also a malformed one) and whatever the bs: the first node taken from the open
  list is the start node, the target test succeeds at once, and the start cell is never
  tested for walkability.
\<close>

theorem findPath_start_is_target:
  "findPath start start gr bs = Inr (Some [start])"
  by (simp add: findPath_def searchLoop.simps lowestFrom_single MAX_ITERATIONS_def)

text \<open>
  C3, as stated, fails: the start cell is never tested, so a path that starts on a bomb is
  returned with that cell in it. Here the searcher stands on the bomb at (1,1).
\<close>

theorem findPath_path_through_bomb:
  "findPath \<lparr>col = 1, row = 1\<rparr> \<lparr>col = 2, row = 1\<rparr> arena [\<lparr>col = 1, row = 1\<rparr>]
     = Inr (Some [\<lparr>col = 1, row = 1\<rparr>, \<lparr>col = 2, row = 1\<rparr>])
   \<and> bombAt [\<lparr>col = 1, row = 1\<rparr>] 1 1"
  by code_simp

text \<open>
  C3, amended: a returned path is not empty, its first cell is the start cell, and no cell
  after the first is occupied by one of the supplied bs.
\<close>

theorem findPath_avoids_bombs_after_start:
  "findPath start target gr bs = Inr (Some path) \<Longrightarrow>
   path \<noteq> [] \<and> hd path = start \<and> (\<forall>p\<in>set (tl path). \<not> bombAt bs (col p) (row p))"
proof -
  assume fp: "findPath start target gr bs = Inr (Some path)"
  have init: "\<forall>n\<in>set [PathNode (col start) (row start) 0 (heuristic start target) (heuristic start target) None].
          nodeOk start bs n"
    by (simp add: nodeOk_def)
  obtain n where n: "nodeOk start bs n" "path = rev (walkParents n)"
    using searchLoop_nodeOk[OF fp[unfolded findPath_def] init] by blast
  obtain cells where c: "walkParents n = cells @ [rootCell n]"
    "tailFree bs n \<longrightarrow> (\<forall>p\<in>set cells. \<not> bombAt bs (col p) (row p))"
    using walkParents_root by blast
  have "path = start # rev cells" using n c(1) by (simp add: nodeOk_def)
  moreover have "\<forall>p\<in>set (rev cells). \<not> bombAt bs (col p) (row p)"
    using n(1) c(2) by (simp add: nodeOk_def)
  ultimately show ?thesis by simp
qed

theorem findPath_avoids_bombs_after_start_witness:
  "findPath \<lparr>col = 1, row = 1\<rparr> \<lparr>col = 3, row = 3\<rparr> arena [\<lparr>col = 2, row = 1\<rparr>]
     = Inr (Some [\<lparr>col = 1, row = 1\<rparr>, \<lparr>col = 1, row = 2\<rparr>, \<lparr>col = 1, row = 3\<rparr>,
                  \<lparr>col = 2, row = 3\<rparr>, \<lparr>col = 3, row = 3\<rparr>])
   \<and> \<not> bombAt [\<lparr>col = 2, row = 1\<rparr>] 1 2 \<and> \<not> bombAt [\<lparr>col = 2, row = 1\<rparr>] 1 3
   \<and> \<not> bombAt [\<lparr>col = 2, row = 1\<rparr>] 2 3 \<and> \<not> bombAt [\<lparr>col = 2, row = 1\<rparr>] 3 3"
proof -
  have h: "findPath \<lparr>col = 1, row = 1\<rparr> \<lparr>col = 3, row = 3\<rparr> arena [\<lparr>col = 2, row = 1\<rparr>]
     = Inr (Some [\<lparr>col = 1, row = 1\<rparr>, \<lparr>col = 1, row = 2\<rparr>, \<lparr>col = 1, row = 3\<rparr>,
                  \<lparr>col = 2, row = 3\<rparr>, \<lparr>col = 3, row = 3\<rparr>])"
    by code_simp
  show ?thesis
    using h findPath_avoids_bombs_after_start[OF h] by simp
qed

subsection \<open>Optimality on an open field\<close>
























section \<open>Properties of the game engine\<close>

subsection \<open>Evaluation of the proximity test\<close>

text \<open>
  The square root in \<open>hypot\<close> does not evaluate; the comparison with a distance does.
\<close>

lemma hypot_less_iff: "hypot a b < d \<longleftrightarrow> 0 < d \<and> a\<^sup>2 + b\<^sup>2 < d\<^sup>2"
proof (cases "0 < d")
  case True
  have "sqrt (a\<^sup>2 + b\<^sup>2) < sqrt (d\<^sup>2) \<longleftrightarrow> a\<^sup>2 + b\<^sup>2 < d\<^sup>2"
    by (rule real_sqrt_less_iff)
  moreover have "sqrt (d\<^sup>2) = d" using True by simp
  ultimately show ?thesis using True by (simp add: hypot_def)
next
  case False
  have "0 \<le> sqrt (a\<^sup>2 + b\<^sup>2)" by simp
  then have "\<not> sqrt (a\<^sup>2 + b\<^sup>2) < d" using False by linarith
  then show ?thesis using False by (simp add: hypot_def)
qed

lemma touchEnemy_code [code]:
  "touchEnemy now st e =
     (if 0 < TILE_SIZE * 0.7 \<and>
         (p_x (player st) - e_x e)\<^sup>2 + (p_y (player st) - e_y e)\<^sup>2 < (TILE_SIZE * 0.7)\<^sup>2
      then killPlayer st now else st)"
  unfolding touchEnemy_def Let_def hypot_less_iff ..



text \<open>
  C4: the key tests form an \<open>else if\<close> chain, so at most one axis is ever set and the scaling
  branch is never taken. With up and left held together the direction is straight up.
\<close>

theorem inputVector_up_left:
  "inputVector \<lparr>up = True, down = False, left = True, right = False, bomb = False,
                bombPressed = False\<rparr> = (0, -1)"
  by (simp add: inputVector_def)

lemma inputVector_axis: "fst (inputVector inp) = 0 \<or> snd (inputVector inp) = 0"
  by (simp add: inputVector_def)
subsection \<open>Blast rays\<close>











subsection \<open>What a tick leaves unchanged\<close>





























lemma unshielded_loses_life:
  "map_sum id lives (update 16 3000 dangerEngine) = Inr 4"
  by code_simp

text \<open>
  C2, as stated, fails: with five lives and one second left, the countdown reaches zero in
  this tick, the player was not dead, and the run is not over afterwards: one life is gone.
\<close>

theorem countdown_zero_not_game_over:
  "map_sum id (\<lambda>s. (gameTime s, lives s, isGameOver s)) (update 16 1000 timeoutEngine)
     = Inr (0, 4, False) \<and>
   p_isDead (player timeoutEngine) = False \<and> gameTime timeoutEngine = 1"
  by code_simp

text \<open>
  C2, amended: when the countdown step of a tick crosses a whole second and takes the
  countdown to zero or below while the player is neither dead nor invulnerable, the player
  loses one life and is marked dead; the run is over afterwards exactly when that was the last
  life (or the run was over before).
\<close>

theorem countdown_timeout_costs_one_life:
  assumes "\<lfloor>now / 1000\<rfloor> \<noteq> \<lfloor>(now - dt) / 1000\<rfloor>" and "gameTime st \<le> 1"
    and "\<not> p_isDead (player st)" and "\<not> now < invulnerableUntil (player st)"
  shows "gameTime (countdown dt now st) = gameTime st - 1 \<and>
         lives (countdown dt now st) = lives st - 1 \<and>
         p_isDead (player (countdown dt now st)) \<and>
         isGameOver (countdown dt now st) = (lives st \<le> 1 \<or> isGameOver st)"
  using assms by (simp add: countdown_def killPlayer_def Let_def)

theorem countdown_timeout_costs_one_life_witness:
  "\<lfloor>(1000::real) / 1000\<rfloor> \<noteq> \<lfloor>((1000::real) - 16) / 1000\<rfloor> \<and> gameTime timeoutEngine \<le> 1 \<and>
   \<not> p_isDead (player timeoutEngine) \<and> \<not> 1000 < invulnerableUntil (player timeoutEngine) \<and>
   gameTime (countdown 16 1000 timeoutEngine) = gameTime timeoutEngine - 1 \<and>
   lives (countdown 16 1000 timeoutEngine) = lives timeoutEngine - 1 \<and>
   p_isDead (player (countdown 16 1000 timeoutEngine)) \<and>
   isGameOver (countdown 16 1000 timeoutEngine)
     = (lives timeoutEngine \<le> 1 \<or> isGameOver timeoutEngine)"
proof -
  have h: "\<lfloor>(1000::real) / 1000\<rfloor> \<noteq> \<lfloor>((1000::real) - 16) / 1000\<rfloor>" "gameTime timeoutEngine \<le> 1"
    "\<not> p_isDead (player timeoutEngine)" "\<not> 1000 < invulnerableUntil (player timeoutEngine)"
    by code_simp+
  show ?thesis
    using h countdown_timeout_costs_one_life[OF h] by blast
qed

subsection \<open>The level-complete callback\<close>















subsection \<open>Chain reactions\<close>


























end
